theory Spec2Isabelle
  imports Main "HOL-Library.Multiset" "HOL-Library.Char_ord" "HOL-Library.List_Lexorder"
begin

section \<open>Payloads and their serialisation\<close>

text \<open>
  A resource payload is what \<^verbatim>\<open>response.json()\<close> and \<^verbatim>\<open>json.loads\<close> return: a tree of
  dicts, lists and scalars. Python's \<^verbatim>\<open>None\<close> is \<open>JNull\<close>; a dict keeps its insertion
  order, so an object is an association list. Numbers are Python's unbounded integers
  (floating-point numbers are outside this development). A character is a code point
  below 256.
\<close>

datatype json =
    JNull
  | JBool bool
  | JInt int
  | JString string
  | JArray "json list"
  | JObject "(string \<times> json) list"

text \<open>Exceptions that the detector's own statements can raise.\<close>

datatype error = NameError string | AttributeError string

text \<open>\<^verbatim>\<open>sep.join(parts)\<close>\<close>

fun join :: "string \<Rightarrow> string list \<Rightarrow> string" where
  "join sep [] = []"
| "join sep [x] = x"
| "join sep (x # y # ys) = x @ sep @ join sep (y # ys)"

text \<open>\<^verbatim>\<open>'{0:04x}'.format(n)\<close> for a code point below 256, and \<^verbatim>\<open>repr\<close> of an integer.\<close>

definition hex_digit :: "nat \<Rightarrow> char" where
  "hex_digit n = ''0123456789abcdef'' ! (n mod 16)"

definition hex4 :: "nat \<Rightarrow> string" where
  "hex4 n = [hex_digit (n div 4096), hex_digit (n div 256), hex_digit (n div 16), hex_digit n]"

fun dec_nat :: "nat \<Rightarrow> string" where
  "dec_nat n = (if n < 10 then [hex_digit n] else dec_nat (n div 10) @ [hex_digit (n mod 10)])"

declare dec_nat.simps [simp del]

definition dec_int :: "int \<Rightarrow> string" where
  "dec_int i = (if i < 0 then CHR ''-'' # dec_nat (nat (- i)) else dec_nat (nat i))"

text \<open>
  \<^verbatim>\<open>json.encoder.py_encode_basestring_ascii\<close> (the default \<^verbatim>\<open>ensure_ascii=True\<close>): the
  backslash, the double quote and the five named control characters have two-character
  escapes, every other character outside \<^verbatim>\<open>' '..'~'\<close> becomes \<^verbatim>\<open>\uXXXX\<close>.
\<close>

definition escape_char :: "char \<Rightarrow> string" where
  "escape_char c =
     (let n = (of_char c :: nat) in
      if n = 0x5C then [CHR 0x5C, CHR 0x5C]
      else if n = 0x22 then [CHR 0x5C, CHR 0x22]
      else if n = 0x08 then [CHR 0x5C, CHR ''b'']
      else if n = 0x0C then [CHR 0x5C, CHR ''f'']
      else if n = 0x0A then [CHR 0x5C, CHR ''n'']
      else if n = 0x0D then [CHR 0x5C, CHR ''r'']
      else if n = 0x09 then [CHR 0x5C, CHR ''t'']
      else if n < 0x20 \<or> 0x7E < n then [CHR 0x5C, CHR ''u''] @ hex4 n
      else [c])"

definition encode_basestring_ascii :: "string \<Rightarrow> string" where
  "encode_basestring_ascii s = [CHR 0x22] @ concat (map escape_char s) @ [CHR 0x22]"

text \<open>
  \<^verbatim>\<open>json.dumps(data)\<close> as differ.py calls it, with every default: separators
  \<^verbatim>\<open>', '\<close> and \<^verbatim>\<open>': '\<close>, and no \<^verbatim>\<open>sort_keys\<close>, so the members of an object come out in the
  order the dict holds them.
\<close>

fun json_dumps :: "json \<Rightarrow> string" where
  "json_dumps JNull = ''null''"
| "json_dumps (JBool b) = (if b then ''true'' else ''false'')"
| "json_dumps (JInt i) = dec_int i"
| "json_dumps (JString s) = encode_basestring_ascii s"
| "json_dumps (JArray xs) = ''['' @ join '', '' (map json_dumps xs) @ '']''"
| "json_dumps (JObject kvs) =
     ''{'' @ join '', '' (map (\<lambda>kv. encode_basestring_ascii (fst kv) @ '': '' @ json_dumps (snd kv)) kvs) @ ''}''"

section \<open>events.py\<close>

datatype EventCategory = SCOPE | REGULATORY | REGISTRATION | CONTACT | RESTRICTION | TRAINING | NEWS

fun EventCategory_value :: "EventCategory \<Rightarrow> string" where
  "EventCategory_value SCOPE = ''Scope''"
| "EventCategory_value REGULATORY = ''Regulatory''"
| "EventCategory_value REGISTRATION = ''Registration''"
| "EventCategory_value CONTACT = ''Contact''"
| "EventCategory_value RESTRICTION = ''Restriction''"
| "EventCategory_value TRAINING = ''Training''"
| "EventCategory_value NEWS = ''News''"

datatype EventType =
    SCOPE_ADDED | SCOPE_REMOVED | SCOPE_CHANGED
  | REGULATORY_NEW | REGULATORY_UPDATED
  | REGISTRATION_STATUS_CHANGED | REGISTRATION_EXPIRY_CHANGED | REGISTRATION_MANAGER_CHANGED
  | CONTACT_ADDED | CONTACT_REMOVED | CONTACT_CHANGED
  | RESTRICTION_ADDED | RESTRICTION_REMOVED
  | TRAINING_PACKAGE_SUPERSEDED | TRAINING_PACKAGE_UPDATED
  | INDUSTRY_NEWS

fun EventType_value :: "EventType \<Rightarrow> string" where
  "EventType_value SCOPE_ADDED = ''scope_added''"
| "EventType_value SCOPE_REMOVED = ''scope_removed''"
| "EventType_value SCOPE_CHANGED = ''scope_changed''"
| "EventType_value REGULATORY_NEW = ''regulatory_new''"
| "EventType_value REGULATORY_UPDATED = ''regulatory_updated''"
| "EventType_value REGISTRATION_STATUS_CHANGED = ''registration_status_changed''"
| "EventType_value REGISTRATION_EXPIRY_CHANGED = ''registration_expiry_changed''"
| "EventType_value REGISTRATION_MANAGER_CHANGED = ''registration_manager_changed''"
| "EventType_value CONTACT_ADDED = ''contact_added''"
| "EventType_value CONTACT_REMOVED = ''contact_removed''"
| "EventType_value CONTACT_CHANGED = ''contact_changed''"
| "EventType_value RESTRICTION_ADDED = ''restriction_added''"
| "EventType_value RESTRICTION_REMOVED = ''restriction_removed''"
| "EventType_value TRAINING_PACKAGE_SUPERSEDED = ''training_package_superseded''"
| "EventType_value TRAINING_PACKAGE_UPDATED = ''training_package_updated''"
| "EventType_value INDUSTRY_NEWS = ''industry_news''"

text \<open>\<^verbatim>\<open>d.get(key, default)\<close> on a dict held as an association list.\<close>

definition dict_get :: "('k \<times> 'v) list \<Rightarrow> 'k \<Rightarrow> 'v \<Rightarrow> 'v" where
  "dict_get d k dflt = (case map_of d k of None \<Rightarrow> dflt | Some v \<Rightarrow> v)"

text \<open>
  What a caller can pass to \<^verbatim>\<open>get_event_category\<close>: Python does not check the annotation
  \<^verbatim>\<open>EventType\<close>, so the argument is a member of the enum or some other hashable value, named
  here by a string (the string \<^verbatim>\<open>'not_a_type'\<close> itself, say). \<^verbatim>\<open>EventType\<close> is a plain
  \<^verbatim>\<open>Enum\<close>: no other value equals one of its members, so no other value is a key of the table.
\<close>

datatype type_key = Member EventType | NonMember string

definition EVENT_CATEGORY_MAP :: "(type_key \<times> EventCategory) list" where
  "EVENT_CATEGORY_MAP =
    [(Member SCOPE_ADDED, SCOPE),
     (Member SCOPE_REMOVED, SCOPE),
     (Member SCOPE_CHANGED, SCOPE),
     (Member REGULATORY_NEW, REGULATORY),
     (Member REGULATORY_UPDATED, REGULATORY),
     (Member REGISTRATION_STATUS_CHANGED, REGISTRATION),
     (Member REGISTRATION_EXPIRY_CHANGED, REGISTRATION),
     (Member REGISTRATION_MANAGER_CHANGED, REGISTRATION),
     (Member CONTACT_ADDED, CONTACT),
     (Member CONTACT_REMOVED, CONTACT),
     (Member CONTACT_CHANGED, CONTACT),
     (Member RESTRICTION_ADDED, RESTRICTION),
     (Member RESTRICTION_REMOVED, RESTRICTION),
     (Member TRAINING_PACKAGE_SUPERSEDED, TRAINING),
     (Member TRAINING_PACKAGE_UPDATED, TRAINING),
     (Member INDUSTRY_NEWS, NEWS)]"

definition get_event_category :: "type_key \<Rightarrow> EventCategory" where
  "get_event_category event_type = dict_get EVENT_CATEGORY_MAP event_type SCOPE"

definition make_source_url :: "string \<Rightarrow> string \<Rightarrow> string" where
  "make_source_url rto_code endpoint =
     (let base = ''https://training.gov.au/organisation/details/'' @ rto_code;
          endpoint_map =
            [(''scope'', base @ ''#scope''),
             (''regulatory'', base @ ''#regulatory''),
             (''registration'', base @ ''#registration''),
             (''contacts'', base @ ''#contacts''),
             (''restrictions'', base @ ''#restrictions'')]
      in dict_get endpoint_map endpoint base)"

section \<open>models.py\<close>

text \<open>
  The dataclass \<^verbatim>\<open>TriggerEvent\<close>. The detector passes \<^verbatim>\<open>None\<close> for \<^verbatim>\<open>new_value\<close> in a removal
  event, so the field is optional here although it is annotated \<^verbatim>\<open>str\<close>. A datetime is a
  timestamp. The field \<^verbatim>\<open>id\<close> is \<open>event_id\<close>.
\<close>

record TriggerEvent =
  rto_code :: string
  rto_name :: string
  event_type :: string
  event_category :: string
  new_value :: "string option"
  old_value :: "string option"
  detected_at :: "int option"
  outreach_score :: "string option"
  suggested_opening :: "string option"
  business_implication :: "string option"
  source_url :: "string option"
  delivery_status :: string
  outreach_status :: string
  event_id :: "int option"

text \<open>
  The constructor call the detector makes everywhere: seven keyword arguments, every other
  field left at the default the dataclass declares.
\<close>

definition TriggerEvent_init ::
  "string \<Rightarrow> string \<Rightarrow> string \<Rightarrow> string \<Rightarrow> string option \<Rightarrow> string option \<Rightarrow> string \<Rightarrow> TriggerEvent" where
  "TriggerEvent_init code name etype ecat old new url =
     \<lparr> rto_code = code, rto_name = name, event_type = etype, event_category = ecat,
       new_value = new, old_value = old, detected_at = None, outreach_score = None,
       suggested_opening = None, business_implication = None, source_url = Some url,
       delivery_status = ''pending'', outreach_status = ''New'', event_id = None \<rparr>"

section \<open>differ.py\<close>

text \<open>
  The calls of \<^verbatim>\<open>logger.info\<close> return nothing and decide nothing; they are left out.
\<close>

text \<open>
  The names bound in the namespace of the module differ.py: its imports
  (\<^verbatim>\<open>json\<close>, \<^verbatim>\<open>logging\<close>, four names of \<^verbatim>\<open>typing\<close>, \<^verbatim>\<open>DeepDiff\<close>, then \<^verbatim>\<open>EventType\<close>,
  \<^verbatim>\<open>get_event_category\<close> and \<^verbatim>\<open>make_source_url\<close> from events.py, and \<^verbatim>\<open>TriggerEvent\<close>) and
  what it defines itself. Reading any other global name raises \<^verbatim>\<open>NameError\<close>.
\<close>

definition differ_module_names :: "string list" where
  "differ_module_names =
     [''json'', ''logging'', ''Any'', ''Dict'', ''List'', ''Optional'', ''DeepDiff'',
      ''EventType'', ''get_event_category'', ''make_source_url'', ''TriggerEvent'',
      ''logger'', ''ChangeDetector'']"

definition load_global :: "string \<Rightarrow> 'a \<Rightarrow> error + 'a" where
  "load_global name v = (if name \<in> set differ_module_names then Inr v else Inl (NameError name))"

text \<open>
  What \<^verbatim>\<open>DeepDiff(baseline, current, ignore_order=True)\<close> returns, as the detector reads
  it: a dict from report kind to a dict from path to value, each in iteration order. The
  value under \<^verbatim>\<open>values_changed\<close> is itself a dict with the keys \<^verbatim>\<open>new_value\<close> and
  \<^verbatim>\<open>old_value\<close>. The library is not part of the repository: every function of the
  detector below takes the comparison as its first argument \<open>dd\<close>.
\<close>

type_synonym diff = "(string \<times> (string \<times> json) list) list"

text \<open>\<^verbatim>\<open>mapping.get(key)\<close> where a missing key and a stored \<^verbatim>\<open>None\<close> both give \<^verbatim>\<open>None\<close>.\<close>

definition py_get :: "(string \<rightharpoonup> json) \<Rightarrow> string \<Rightarrow> json" where
  "py_get m k = (case m k of None \<Rightarrow> JNull | Some v \<Rightarrow> v)"

text \<open>\<^verbatim>\<open>change.get(key)\<close> on a value of the diff: only a dict has the method.\<close>

definition change_get :: "json \<Rightarrow> string \<Rightarrow> error + json" where
  "change_get change k =
     (case change of
        JObject kvs \<Rightarrow> Inr (dict_get kvs k JNull)
      | _ \<Rightarrow> Inl (AttributeError ''get''))"

text \<open>
  A \<^verbatim>\<open>for\<close> loop whose body appends one event to \<^verbatim>\<open>events\<close>; an exception in the body
  leaves the loop and the function.
\<close>

fun for_each :: "('a \<Rightarrow> error + 'b) \<Rightarrow> 'a list \<Rightarrow> 'b list \<Rightarrow> error + 'b list" where
  "for_each body [] events = Inr events"
| "for_each body (x # xs) events =
     (case body x of Inl e \<Rightarrow> Inl e | Inr ev \<Rightarrow> for_each body xs (events @ [ev]))"

text \<open>\<^verbatim>\<open>s.lower()\<close> on code points below 256, and \<^verbatim>\<open>sub in s\<close>.\<close>

definition lower_char :: "char \<Rightarrow> char" where
  "lower_char c =
     (let n = (of_char c :: nat) in
      if (0x41 \<le> n \<and> n \<le> 0x5A) \<or> (0xC0 \<le> n \<and> n \<le> 0xDE \<and> n \<noteq> 0xD7)
      then char_of (n + 0x20) else c)"

definition lower :: "string \<Rightarrow> string" where
  "lower s = map lower_char s"

fun str_in :: "string \<Rightarrow> string \<Rightarrow> bool" where
  "str_in sub [] = (sub = [])"
| "str_in sub (c # cs) = (take (length sub) (c # cs) = sub \<or> str_in sub cs)"

definition handle_new_data :: "string \<Rightarrow> string \<Rightarrow> string \<Rightarrow> json \<Rightarrow> error + TriggerEvent list" where
  "handle_new_data code name endpoint data =
     (let event_type =
            (if endpoint = ''regulatory'' then REGULATORY_NEW
             else if endpoint = ''restrictions'' then RESTRICTION_ADDED
             else SCOPE_ADDED)
      in Inr [TriggerEvent_init code name
                (EventType_value event_type)
                (EventCategory_value (get_event_category (Member event_type)))
                None
                (Some (json_dumps data))
                (make_source_url code endpoint)])"

definition handle_removed_data :: "string \<Rightarrow> string \<Rightarrow> string \<Rightarrow> json \<Rightarrow> error + TriggerEvent list" where
  "handle_removed_data code name endpoint data =
     (let event_type =
            (if endpoint = ''regulatory'' then REGULATORY_UPDATED
             else if endpoint = ''restrictions'' then RESTRICTION_REMOVED
             else SCOPE_REMOVED)
      in Inr [TriggerEvent_init code name
                (EventType_value event_type)
                (EventCategory_value (get_event_category (Member event_type)))
                (Some (json_dumps data))
                None
                (make_source_url code endpoint)])"

text \<open>
  The bodies of the three loops of \<^verbatim>\<open>_detect_scope_changes\<close>. Python evaluates the keyword
  arguments of the constructor call from left to right: \<^verbatim>\<open>EventCategory.SCOPE.value\<close> comes
  before the \<^verbatim>\<open>json.dumps\<close> and \<^verbatim>\<open>change.get\<close> calls.
\<close>

definition scope_added_event :: "string \<Rightarrow> string \<Rightarrow> string \<times> json \<Rightarrow> error + TriggerEvent" where
  "scope_added_event code name item =
     (case load_global ''EventCategory'' (EventCategory_value SCOPE) of
        Inl e \<Rightarrow> Inl e
      | Inr category \<Rightarrow>
          Inr (TriggerEvent_init code name (EventType_value SCOPE_ADDED) category
                 None (Some (json_dumps (snd item))) (make_source_url code ''scope'')))"

definition scope_removed_event :: "string \<Rightarrow> string \<Rightarrow> string \<times> json \<Rightarrow> error + TriggerEvent" where
  "scope_removed_event code name item =
     (case load_global ''EventCategory'' (EventCategory_value SCOPE) of
        Inl e \<Rightarrow> Inl e
      | Inr category \<Rightarrow>
          Inr (TriggerEvent_init code name (EventType_value SCOPE_REMOVED) category
                 (Some (json_dumps (snd item))) None (make_source_url code ''scope'')))"

definition scope_changed_event :: "string \<Rightarrow> string \<Rightarrow> string \<times> json \<Rightarrow> error + TriggerEvent" where
  "scope_changed_event code name item =
     (case load_global ''EventCategory'' (EventCategory_value SCOPE) of
        Inl e \<Rightarrow> Inl e
      | Inr category \<Rightarrow>
          (case change_get (snd item) ''old_value'' of
             Inl e \<Rightarrow> Inl e
           | Inr old \<Rightarrow>
               (case change_get (snd item) ''new_value'' of
                  Inl e \<Rightarrow> Inl e
                | Inr new \<Rightarrow>
                    Inr (TriggerEvent_init code name (EventType_value SCOPE_CHANGED) category
                           (Some (json_dumps old)) (Some (json_dumps new))
                           (make_source_url code ''scope'')))))"

text \<open>One \<^verbatim>\<open>if kind in diff: for path, value in diff[kind].items(): ...\<close> block.\<close>

definition for_kind ::
  "diff \<Rightarrow> string \<Rightarrow> (string \<times> json \<Rightarrow> error + TriggerEvent) \<Rightarrow> TriggerEvent list \<Rightarrow> error + TriggerEvent list" where
  "for_kind d kind body events =
     (case map_of d kind of
        None \<Rightarrow> Inr events
      | Some items \<Rightarrow> for_each body items events)"

definition detect_scope_changes ::
  "string \<Rightarrow> string \<Rightarrow> json \<Rightarrow> json \<Rightarrow> diff \<Rightarrow> error + TriggerEvent list" where
  "detect_scope_changes code name current baseline d =
     (case for_kind d ''iterable_item_added'' (scope_added_event code name) [] of
        Inl e \<Rightarrow> Inl e
      | Inr events1 \<Rightarrow>
          (case for_kind d ''iterable_item_removed'' (scope_removed_event code name) events1 of
             Inl e \<Rightarrow> Inl e
           | Inr events2 \<Rightarrow>
               for_kind d ''values_changed'' (scope_changed_event code name) events2))"

definition detect_regulatory_changes ::
  "string \<Rightarrow> string \<Rightarrow> json \<Rightarrow> json \<Rightarrow> diff \<Rightarrow> error + TriggerEvent list" where
  "detect_regulatory_changes code name current baseline d =
     (case load_global ''EventCategory'' (EventCategory_value REGULATORY) of
        Inl e \<Rightarrow> Inl e
      | Inr category \<Rightarrow>
          Inr [TriggerEvent_init code name (EventType_value REGULATORY_NEW) category
                 (Some (json_dumps baseline)) (Some (json_dumps current))
                 (make_source_url code ''regulatory'')])"

definition registration_event_type :: "string \<Rightarrow> EventType" where
  "registration_event_type path =
     (if str_in ''status'' (lower path) then REGISTRATION_STATUS_CHANGED
      else if str_in ''expiry'' (lower path) \<or> str_in ''end'' (lower path)
        then REGISTRATION_EXPIRY_CHANGED
      else REGISTRATION_STATUS_CHANGED)"

definition registration_changed_event :: "string \<Rightarrow> string \<Rightarrow> string \<times> json \<Rightarrow> error + TriggerEvent" where
  "registration_changed_event code name item =
     (let event_type = registration_event_type (fst item) in
      case load_global ''EventCategory'' (EventCategory_value REGISTRATION) of
        Inl e \<Rightarrow> Inl e
      | Inr category \<Rightarrow>
          (case change_get (snd item) ''old_value'' of
             Inl e \<Rightarrow> Inl e
           | Inr old \<Rightarrow>
               (case change_get (snd item) ''new_value'' of
                  Inl e \<Rightarrow> Inl e
                | Inr new \<Rightarrow>
                    Inr (TriggerEvent_init code name (EventType_value event_type) category
                           (Some (json_dumps old)) (Some (json_dumps new))
                           (make_source_url code ''registration'')))))"

definition detect_registration_changes ::
  "string \<Rightarrow> string \<Rightarrow> json \<Rightarrow> json \<Rightarrow> diff \<Rightarrow> error + TriggerEvent list" where
  "detect_registration_changes code name current baseline d =
     for_kind d ''values_changed'' (registration_changed_event code name) []"

definition compare_data ::
  "(json \<Rightarrow> json \<Rightarrow> diff) \<Rightarrow> string \<Rightarrow> string \<Rightarrow> string \<Rightarrow> json \<Rightarrow> json \<Rightarrow> error + TriggerEvent list" where
  "compare_data dd code name endpoint current baseline =
     (let d = dd baseline current in
      if d = [] then Inr []
      else if endpoint = ''scope'' then detect_scope_changes code name current baseline d
      else if endpoint = ''regulatory'' then detect_regulatory_changes code name current baseline d
      else if endpoint = ''registration'' then detect_registration_changes code name current baseline d
      else Inr [TriggerEvent_init code name
                  (EventType_value SCOPE_CHANGED)
                  (EventCategory_value (get_event_category (Member SCOPE_CHANGED)))
                  (Some (json_dumps baseline))
                  (Some (json_dumps current))
                  (make_source_url code endpoint)])"

definition detect_endpoint_changes ::
  "(json \<Rightarrow> json \<Rightarrow> diff) \<Rightarrow> string \<Rightarrow> string \<Rightarrow> string \<Rightarrow> json \<Rightarrow> json \<Rightarrow> error + TriggerEvent list" where
  "detect_endpoint_changes dd code name endpoint current baseline =
     (if baseline = JNull \<and> current \<noteq> JNull then handle_new_data code name endpoint current
      else if baseline \<noteq> JNull \<and> current = JNull then handle_removed_data code name endpoint baseline
      else if baseline \<noteq> JNull \<and> current \<noteq> JNull
        then compare_data dd code name endpoint current baseline
      else Inr [])"

definition ENDPOINTS :: "string list" where
  "ENDPOINTS = [''scope'', ''regulatory'', ''registration'', ''contacts'', ''restrictions'']"

text \<open>
  The body of the loop of \<^verbatim>\<open>detect_all_changes\<close> for one endpoint: the events it adds
  (\<^verbatim>\<open>continue\<close> adds none).
\<close>

definition endpoint_events ::
  "(json \<Rightarrow> json \<Rightarrow> diff) \<Rightarrow> string \<Rightarrow> string \<Rightarrow> (string \<rightharpoonup> json) \<Rightarrow> (string \<rightharpoonup> json) \<Rightarrow> string
     \<Rightarrow> error + TriggerEvent list" where
  "endpoint_events dd code name current_data baseline_data endpoint =
     (let current = py_get current_data endpoint;
          baseline = py_get baseline_data endpoint
      in if current = JNull \<and> baseline = JNull then Inr []
         else detect_endpoint_changes dd code name endpoint current baseline)"

fun detect_loop ::
  "(json \<Rightarrow> json \<Rightarrow> diff) \<Rightarrow> string \<Rightarrow> string \<Rightarrow> (string \<rightharpoonup> json) \<Rightarrow> (string \<rightharpoonup> json) \<Rightarrow> string list
     \<Rightarrow> TriggerEvent list \<Rightarrow> error + TriggerEvent list" where
  "detect_loop dd code name current_data baseline_data [] events = Inr events"
| "detect_loop dd code name current_data baseline_data (endpoint # rest) events =
     (case endpoint_events dd code name current_data baseline_data endpoint of
        Inl e \<Rightarrow> Inl e
      | Inr evs \<Rightarrow> detect_loop dd code name current_data baseline_data rest (events @ evs))"

definition detect_all_changes ::
  "(json \<Rightarrow> json \<Rightarrow> diff) \<Rightarrow> string \<Rightarrow> string \<Rightarrow> (string \<rightharpoonup> json) \<Rightarrow> (string \<rightharpoonup> json)
     \<Rightarrow> error + TriggerEvent list" where
  "detect_all_changes dd code name current_data baseline_data =
     detect_loop dd code name current_data baseline_data ENDPOINTS []"

section \<open>The structural diff\<close>

text \<open>
  The deepdiff library is imported by differ.py and is not among the sources. What follows
  stands for \<^verbatim>\<open>DeepDiff(baseline, current, ignore_order=True)\<close> and is written from section
  4.2 of the specification: an order-insensitive recursive comparison of the two payload
  trees that produces three kinds of deltas (an item added to a list-valued path, an item
  removed from a list-valued path, a scalar changed at a path), where reordering the
  elements of a list alone produces no delta, and where a mismatch of shapes gives one
  scalar-changed delta for the whole value instead of a failure.
\<close>

text \<open>
  Modelled from the spec: the deepdiff library is missing; this is the equality up to the
  order of list elements by which the structural diff decides whether an item of one list
  is a member of the other (set semantics for array membership). An object is compared as
  a map from key to value.
\<close>

fun oi_equal :: "json \<Rightarrow> json \<Rightarrow> bool" where
  "oi_equal (JArray xs) (JArray ys) =
     (list_all (\<lambda>x. list_ex (\<lambda>y. oi_equal x y) ys) xs \<and>
      list_all (\<lambda>y. list_ex (\<lambda>x. oi_equal x y) xs) ys)"
| "oi_equal (JObject kvs) (JObject kvs') =
     (list_all (\<lambda>kv. case map_of kvs' (fst kv) of
                        None \<Rightarrow> False
                      | Some v' \<Rightarrow> oi_equal (snd kv) v') kvs \<and>
      list_all (\<lambda>kv'. map_of kvs (fst kv') \<noteq> None) kvs')"
| "oi_equal a b = (a = b)"

datatype delta =
    ItemAdded string json
  | ItemRemoved string json
  | ScalarChanged string json json

definition index_path :: "string \<Rightarrow> nat \<Rightarrow> string" where
  "index_path path i = path @ ''['' @ dec_nat i @ '']''"

definition key_path :: "string \<Rightarrow> string \<Rightarrow> string" where
  "key_path path k = path @ [CHR ''['', CHR 0x27] @ k @ [CHR 0x27, CHR '']'']"

text \<open>
  Modelled from the spec: the deepdiff library is missing; these are the deltas of the
  structural diff at a path. Two lists give an added item for each element of the new list
  that the old list lacks and a removed item for each element of the old list that the new
  list lacks. Two objects are compared member by member. Any other pair that differs,
  a mismatch of shapes included, is one scalar change of the whole value. The specification
  names no delta for a key held by one object only; here it is a scalar change between the
  value and \<^verbatim>\<open>None\<close>. Paths are written the way the detector expects to read them:
  \<^verbatim>\<open>root\<close>, then \<^verbatim>\<open>['key']\<close> for a member and \<^verbatim>\<open>[i]\<close> for an index.
\<close>

fun deltas :: "string \<Rightarrow> json \<Rightarrow> json \<Rightarrow> delta list" where
  "deltas path (JArray xs) (JArray ys) =
     map (\<lambda>iy. ItemAdded (index_path path (fst iy)) (snd iy))
       (filter (\<lambda>iy. \<not> list_ex (\<lambda>x. oi_equal x (snd iy)) xs) (enumerate 0 ys)) @
     map (\<lambda>ix. ItemRemoved (index_path path (fst ix)) (snd ix))
       (filter (\<lambda>ix. \<not> list_ex (\<lambda>y. oi_equal (snd ix) y) ys) (enumerate 0 xs))"
| "deltas path (JObject kvs) (JObject kvs') =
     concat (map (\<lambda>kv. case map_of kvs' (fst kv) of
                          None \<Rightarrow> [ScalarChanged (key_path path (fst kv)) (snd kv) JNull]
                        | Some v' \<Rightarrow> deltas (key_path path (fst kv)) (snd kv) v') kvs) @
     concat (map (\<lambda>kv'. case map_of kvs (fst kv') of
                           None \<Rightarrow> [ScalarChanged (key_path path (fst kv')) JNull (snd kv')]
                         | Some v \<Rightarrow> []) kvs')"
| "deltas path a b = (if a = b then [] else [ScalarChanged path a b])"

text \<open>The entry a delta makes under each of the three report kinds the detector reads.\<close>

fun item_added :: "delta \<Rightarrow> (string \<times> json) list" where
  "item_added (ItemAdded path v) = [(path, v)]"
| "item_added _ = []"

fun item_removed :: "delta \<Rightarrow> (string \<times> json) list" where
  "item_removed (ItemRemoved path v) = [(path, v)]"
| "item_removed _ = []"

fun value_changed :: "delta \<Rightarrow> (string \<times> json) list" where
  "value_changed (ScalarChanged path old new) =
     [(path, JObject [(''new_value'', new), (''old_value'', old)])]"
| "value_changed _ = []"

text \<open>
  Modelled from the spec: the deepdiff library is missing; this is the value of
  \<^verbatim>\<open>DeepDiff(baseline, current, ignore_order=True)\<close> as the detector reads it, the deltas
  of the structural diff from the root grouped under the three report kinds, a kind being
  present only when it has an entry; no delta gives the empty (falsy) diff.
\<close>

definition deep_diff :: "json \<Rightarrow> json \<Rightarrow> diff" where
  "deep_diff t1 t2 =
     (let ds = deltas ''root'' t1 t2;
          added = concat (map item_added ds);
          removed = concat (map item_removed ds);
          changed = concat (map value_changed ds)
      in (if added = [] then [] else [(''iterable_item_added'', added)]) @
         (if removed = [] then [] else [(''iterable_item_removed'', removed)]) @
         (if changed = [] then [] else [(''values_changed'', changed)]))"

section \<open>Relations between payloads\<close>

text \<open>
  Two payloads are structurally equal up to reordering: equal scalars, lists that are equal
  element by element after one of them is permuted, dicts that hold related values under the
  same keys (a dict has each key once; the order of its keys does not matter).
\<close>

inductive json_perm :: "json \<Rightarrow> json \<Rightarrow> bool" where
  perm_null: "json_perm JNull JNull"
| perm_bool: "json_perm (JBool b) (JBool b)"
| perm_int: "json_perm (JInt i) (JInt i)"
| perm_string: "json_perm (JString s) (JString s)"
| perm_array:
    "list_all2 json_perm xs zs \<Longrightarrow> mset zs = mset ys \<Longrightarrow> json_perm (JArray xs) (JArray ys)"
| perm_object:
    "list_all2 (\<lambda>kv kz. fst kv = fst kz \<and> json_perm (snd kv) (snd kz)) kvs kzs \<Longrightarrow>
     mset kzs = mset kvs' \<Longrightarrow> distinct (map fst kvs) \<Longrightarrow>
     json_perm (JObject kvs) (JObject kvs')"

text \<open>
  Every dict of the payload holds its keys in increasing order of code points, each once:
  the order in which \<^verbatim>\<open>json.dumps(data, sort_keys=True)\<close> of \<^verbatim>\<open>store_baseline\<close> writes them
  and \<^verbatim>\<open>json.loads\<close> of \<^verbatim>\<open>get_baseline\<close> reads them back.
\<close>

fun keys_sorted :: "json \<Rightarrow> bool" where
  "keys_sorted (JArray xs) = list_all keys_sorted xs"
| "keys_sorted (JObject kvs) =
     (sorted_wrt (<) (map fst kvs) \<and> list_all (\<lambda>kv. keys_sorted (snd kv)) kvs)"
| "keys_sorted _ = True"

text \<open>
  Python's \<^verbatim>\<open>==\<close> on payloads whose dicts have each key once: lists by position, dicts as
  maps from key to value whatever the insertion order.
\<close>

fun map_equal :: "json \<Rightarrow> json \<Rightarrow> bool" where
  "map_equal (JArray xs) (JArray ys) = list_all2 map_equal xs ys"
| "map_equal (JObject kvs) (JObject kvs') =
     (list_all (\<lambda>kv. case map_of kvs' (fst kv) of
                        None \<Rightarrow> False
                      | Some v' \<Rightarrow> map_equal (snd kv) v') kvs \<and>
      list_all (\<lambda>kv'. map_of kvs (fst kv') \<noteq> None) kvs')"
| "map_equal a b = (a = b)"

text \<open>The state of an event that nothing after the detector has touched.\<close>

definition created_state :: "TriggerEvent \<Rightarrow> bool" where
  "created_state e =
     (delivery_status e = ''pending'' \<and> outreach_status e = ''New'' \<and>
      outreach_score e = None \<and> suggested_opening e = None \<and>
      business_implication e = None \<and> detected_at e = None)"

section \<open>The event taxonomy\<close>

lemma map_of_EVENT_CATEGORY_MAP:
  "map_of EVENT_CATEGORY_MAP (Member t) = Some (get_event_category (Member t))"
  by (cases t) (simp_all add: get_event_category_def dict_get_def EVENT_CATEGORY_MAP_def)

lemma map_of_EVENT_CATEGORY_MAP_NonMember:
  "map_of EVENT_CATEGORY_MAP (NonMember s) = None"
  by (simp add: EVENT_CATEGORY_MAP_def)

lemma keys_EVENT_CATEGORY_MAP: "set (map fst EVENT_CATEGORY_MAP) = range Member"
proof
  show "set (map fst EVENT_CATEGORY_MAP) \<subseteq> range Member"
    by (auto simp: EVENT_CATEGORY_MAP_def)
  show "range Member \<subseteq> set (map fst EVENT_CATEGORY_MAP)"
  proof
    fix k assume "k \<in> range Member"
    then obtain t where "k = Member t" by blast
    then have "map_of EVENT_CATEGORY_MAP k \<noteq> None"
      by (simp add: map_of_EVENT_CATEGORY_MAP)
    then show "k \<in> set (map fst EVENT_CATEGORY_MAP)"
      by (simp add: map_of_eq_None_iff)
  qed
qed

lemma UNIV_EventCategory:
  "(UNIV :: EventCategory set) = {SCOPE, REGULATORY, REGISTRATION, CONTACT, RESTRICTION, TRAINING, NEWS}"
proof -
  have "c \<in> {SCOPE, REGULATORY, REGISTRATION, CONTACT, RESTRICTION, TRAINING, NEWS}" for c
    by (cases c) simp_all
  then show ?thesis by blast
qed

lemma range_get_event_category: "range (\<lambda>t. get_event_category (Member t)) = UNIV"
proof -
  have "c \<in> range (\<lambda>t. get_event_category (Member t))" for c
  proof (cases c)
    case SCOPE
    have "get_event_category (Member SCOPE_ADDED) = SCOPE"
      by (simp add: get_event_category_def dict_get_def EVENT_CATEGORY_MAP_def)
    then show ?thesis using SCOPE by (metis rangeI)
  next
    case REGULATORY
    have "get_event_category (Member REGULATORY_NEW) = REGULATORY"
      by (simp add: get_event_category_def dict_get_def EVENT_CATEGORY_MAP_def)
    then show ?thesis using REGULATORY by (metis rangeI)
  next
    case REGISTRATION
    have "get_event_category (Member REGISTRATION_STATUS_CHANGED) = REGISTRATION"
      by (simp add: get_event_category_def dict_get_def EVENT_CATEGORY_MAP_def)
    then show ?thesis using REGISTRATION by (metis rangeI)
  next
    case CONTACT
    have "get_event_category (Member CONTACT_ADDED) = CONTACT"
      by (simp add: get_event_category_def dict_get_def EVENT_CATEGORY_MAP_def)
    then show ?thesis using CONTACT by (metis rangeI)
  next
    case RESTRICTION
    have "get_event_category (Member RESTRICTION_ADDED) = RESTRICTION"
      by (simp add: get_event_category_def dict_get_def EVENT_CATEGORY_MAP_def)
    then show ?thesis using RESTRICTION by (metis rangeI)
  next
    case TRAINING
    have "get_event_category (Member TRAINING_PACKAGE_UPDATED) = TRAINING"
      by (simp add: get_event_category_def dict_get_def EVENT_CATEGORY_MAP_def)
    then show ?thesis using TRAINING by (metis rangeI)
  next
    case NEWS
    have "get_event_category (Member INDUSTRY_NEWS) = NEWS"
      by (simp add: get_event_category_def dict_get_def EVENT_CATEGORY_MAP_def)
    then show ?thesis using NEWS by (metis rangeI)
  qed
  then show ?thesis by blast
qed

lemma card_EventCategory: "card (UNIV :: EventCategory set) = 7"
  by (simp add: UNIV_EventCategory)

text \<open>
  C7. The lookup from event type to category is total over exactly seven categories. The
  keys of \<open>EVENT_CATEGORY_MAP\<close> are the sixteen members of the enum, each once, and for a
  member \<open>get_event_category\<close> returns the category stored for it; the categories reached
  are exactly Scope, Regulatory, Registration, Contact, Restriction, Training and News. For
  a key that the table lacks \<open>get_event_category\<close> returns \<open>SCOPE\<close> and does not fail, and
  every value that is no member of the enum is such a key.
\<close>

theorem C7_category_lookup_total:
  "(\<forall>t. map_of EVENT_CATEGORY_MAP (Member t) = Some (get_event_category (Member t)))
   \<and> distinct (map fst EVENT_CATEGORY_MAP)
   \<and> set (map fst EVENT_CATEGORY_MAP) = range Member
   \<and> range (\<lambda>t. get_event_category (Member t))
       = {SCOPE, REGULATORY, REGISTRATION, CONTACT, RESTRICTION, TRAINING, NEWS}
   \<and> card (range (\<lambda>t. get_event_category (Member t))) = 7
   \<and> (\<forall>k. map_of EVENT_CATEGORY_MAP k = None \<longrightarrow> get_event_category k = SCOPE)
   \<and> (\<forall>s. map_of EVENT_CATEGORY_MAP (NonMember s) = None
            \<and> get_event_category (NonMember s) = SCOPE)"
proof (intro conjI allI impI)
  show "map_of EVENT_CATEGORY_MAP (Member t) = Some (get_event_category (Member t))" for t
    by (rule map_of_EVENT_CATEGORY_MAP)
  show "distinct (map fst EVENT_CATEGORY_MAP)"
    by (simp add: EVENT_CATEGORY_MAP_def)
  show "set (map fst EVENT_CATEGORY_MAP) = range Member"
    by (rule keys_EVENT_CATEGORY_MAP)
  show "range (\<lambda>t. get_event_category (Member t))
       = {SCOPE, REGULATORY, REGISTRATION, CONTACT, RESTRICTION, TRAINING, NEWS}"
    using range_get_event_category UNIV_EventCategory by simp
  show "card (range (\<lambda>t. get_event_category (Member t))) = 7"
    using range_get_event_category card_EventCategory by simp
  show "get_event_category k = SCOPE" if "map_of EVENT_CATEGORY_MAP k = None" for k
    using that by (simp add: get_event_category_def dict_get_def)
  show "map_of EVENT_CATEGORY_MAP (NonMember s) = None" for s
    by (rule map_of_EVENT_CATEGORY_MAP_NonMember)
  show "get_event_category (NonMember s) = SCOPE" for s
    by (simp add: get_event_category_def dict_get_def map_of_EVENT_CATEGORY_MAP_NonMember)
qed

theorem C7_category_lookup_total_witness:
  "map_of EVENT_CATEGORY_MAP (NonMember ''not_a_type'') = None
   \<and> get_event_category (NonMember ''not_a_type'') = SCOPE
   \<and> get_event_category (Member INDUSTRY_NEWS) = NEWS"
proof -
  have n: "map_of EVENT_CATEGORY_MAP (Member INDUSTRY_NEWS) = Some NEWS"
    by (simp add: EVENT_CATEGORY_MAP_def)
  have a: "map_of EVENT_CATEGORY_MAP (NonMember ''not_a_type'') = None"
    using C7_category_lookup_total by blast
  have "get_event_category (NonMember ''not_a_type'') = SCOPE"
    using C7_category_lookup_total a by blast
  moreover have "get_event_category (Member INDUSTRY_NEWS) = NEWS"
    using C7_category_lookup_total n by simp
  ultimately show ?thesis using a by simp
qed

section \<open>Appearing and disappearing payloads\<close>

lemma handle_new_data_event:
  "handle_new_data code name r X =
     Inr [TriggerEvent_init code name
            (if r = ''regulatory'' then ''regulatory_new''
             else if r = ''restrictions'' then ''restriction_added'' else ''scope_added'')
            (if r = ''regulatory'' then ''Regulatory''
             else if r = ''restrictions'' then ''Restriction'' else ''Scope'')
            None (Some (json_dumps X)) (make_source_url code r)]"
  by (simp add: handle_new_data_def get_event_category_def dict_get_def EVENT_CATEGORY_MAP_def)

lemma handle_removed_data_event:
  "handle_removed_data code name r X =
     Inr [TriggerEvent_init code name
            (if r = ''regulatory'' then ''regulatory_updated''
             else if r = ''restrictions'' then ''restriction_removed'' else ''scope_removed'')
            (if r = ''regulatory'' then ''Regulatory''
             else if r = ''restrictions'' then ''Restriction'' else ''Scope'')
            (Some (json_dumps X)) None (make_source_url code r)]"
  by (simp add: handle_removed_data_def get_event_category_def dict_get_def EVENT_CATEGORY_MAP_def)

text \<open>
  C3. For a payload \<open>X\<close> that is present (not \<^verbatim>\<open>None\<close>) and any resource \<open>r\<close>, with any
  comparison \<open>dd\<close>: when the baseline is absent the detector returns exactly one event, and
  when the current payload is absent it returns exactly one event. Their types follow the
  routing: scope gives scope_added and scope_removed, regulatory gives regulatory_new and
  regulatory_updated, restrictions gives restriction_added and restriction_removed, any
  other resource gives the scope pair. The appeared event has no old value and the
  serialised \<open>X\<close> as new value; the disappeared event has the serialised \<open>X\<close> as old value
  and no new value.
\<close>

theorem C3_appeared_disappeared_routing:
  assumes "X \<noteq> JNull"
  shows "\<exists>a d.
           detect_endpoint_changes dd code name r X JNull = Inr [a]
         \<and> detect_endpoint_changes dd code name r JNull X = Inr [d]
         \<and> event_type a =
             (if r = ''scope'' then EventType_value SCOPE_ADDED
              else if r = ''regulatory'' then EventType_value REGULATORY_NEW
              else if r = ''restrictions'' then EventType_value RESTRICTION_ADDED
              else EventType_value SCOPE_ADDED)
         \<and> event_type d =
             (if r = ''scope'' then EventType_value SCOPE_REMOVED
              else if r = ''regulatory'' then EventType_value REGULATORY_UPDATED
              else if r = ''restrictions'' then EventType_value RESTRICTION_REMOVED
              else EventType_value SCOPE_REMOVED)
         \<and> old_value a = None \<and> new_value a = Some (json_dumps X)
         \<and> old_value d = Some (json_dumps X) \<and> new_value d = None"
  using assms
  by (simp add: detect_endpoint_changes_def handle_new_data_event handle_removed_data_event
        TriggerEvent_init_def)

theorem C3_appeared_disappeared_routing_witness:
  "JArray [JInt 1, JInt 2] \<noteq> JNull
   \<and> (\<exists>a d.
         detect_endpoint_changes deep_diff ''0001'' ''Acme'' ''restrictions''
            (JArray [JInt 1, JInt 2]) JNull = Inr [a]
       \<and> detect_endpoint_changes deep_diff ''0001'' ''Acme'' ''restrictions''
            JNull (JArray [JInt 1, JInt 2]) = Inr [d]
       \<and> event_type a = ''restriction_added'' \<and> event_type d = ''restriction_removed''
       \<and> old_value a = None \<and> new_value a = Some ''[1, 2]''
       \<and> old_value d = Some ''[1, 2]'' \<and> new_value d = None)"
proof -
  have d: "json_dumps (JArray [JInt 1, JInt 2]) = ''[1, 2]''"
    by (simp add: dec_int_def dec_nat.simps hex_digit_def)
  show ?thesis
    using C3_appeared_disappeared_routing [of "JArray [JInt 1, JInt 2]" deep_diff
            "''0001''" "''Acme''" "''restrictions''"]
    unfolding d by simp
qed

section \<open>The decision table of one resource\<close>

lemma compare_data_empty_diff:
  "dd b c = [] \<Longrightarrow> compare_data dd code name r c b = Inr []"
  by (simp add: compare_data_def)

lemma compare_data_events_diff:
  "compare_data dd code name r c b = Inr evs \<Longrightarrow> evs \<noteq> [] \<Longrightarrow> dd b c \<noteq> []"
  by (auto simp: compare_data_def)

lemma compare_data_scope:
  "dd b c \<noteq> [] \<Longrightarrow>
   compare_data dd code name ''scope'' c b = detect_scope_changes code name c b (dd b c)"
  by (simp add: compare_data_def Let_def)

lemma compare_data_regulatory:
  "dd b c \<noteq> [] \<Longrightarrow>
   compare_data dd code name ''regulatory'' c b = detect_regulatory_changes code name c b (dd b c)"
  by (simp add: compare_data_def Let_def)

lemma compare_data_registration:
  "dd b c \<noteq> [] \<Longrightarrow>
   compare_data dd code name ''registration'' c b
     = detect_registration_changes code name c b (dd b c)"
  by (simp add: compare_data_def Let_def)

lemma compare_data_generic:
  assumes "dd b c \<noteq> []" and "r \<noteq> ''scope''" and "r \<noteq> ''regulatory''" and "r \<noteq> ''registration''"
  shows "compare_data dd code name r c b
           = Inr [TriggerEvent_init code name ''scope_changed'' ''Scope''
                    (Some (json_dumps b)) (Some (json_dumps c)) (make_source_url code r)]"
  using assms
  by (simp add: compare_data_def Let_def get_event_category_def dict_get_def EVENT_CATEGORY_MAP_def)

text \<open>
  C2. What one pass of the loop of \<^verbatim>\<open>detect_all_changes\<close> adds for a resource \<open>r\<close>, by the
  four rows of the table (absent is \<^verbatim>\<open>None\<close>, for a missing key as for a stored \<^verbatim>\<open>None\<close>):
  baseline and current absent, no event; baseline absent and current present, exactly one
  event, with no old value and the serialised current payload as new value; baseline present
  and current absent, exactly one event, with the serialised baseline as old value and no
  new value; both present, the result of \<^verbatim>\<open>_compare_data\<close>, which is no event when the diff
  is empty, and which holds an event only if the diff is not empty. With both present and a
  diff that is not empty, the diff goes to the handler of the resource: for scope, regulatory
  and registration the result is what that handler returns for the diff, and for every other
  resource it is exactly one scope_changed event of category Scope that carries the
  serialised baseline as old value and the serialised current payload as new value.
\<close>

theorem C2_decision_table:
  fixes current_data baseline_data :: "string \<rightharpoonup> json" and r :: string
  defines "cur \<equiv> py_get current_data r" and "base \<equiv> py_get baseline_data r"
  shows "(base = JNull \<and> cur = JNull \<longrightarrow>
            endpoint_events dd code name current_data baseline_data r = Inr [])
       \<and> (base = JNull \<and> cur \<noteq> JNull \<longrightarrow>
            (\<exists>e. endpoint_events dd code name current_data baseline_data r = Inr [e]
                 \<and> old_value e = None \<and> new_value e = Some (json_dumps cur)))
       \<and> (base \<noteq> JNull \<and> cur = JNull \<longrightarrow>
            (\<exists>e. endpoint_events dd code name current_data baseline_data r = Inr [e]
                 \<and> old_value e = Some (json_dumps base) \<and> new_value e = None))
       \<and> (base \<noteq> JNull \<and> cur \<noteq> JNull \<longrightarrow>
            endpoint_events dd code name current_data baseline_data r
              = compare_data dd code name r cur base
            \<and> (dd base cur = [] \<longrightarrow>
                 endpoint_events dd code name current_data baseline_data r = Inr [])
            \<and> (\<forall>evs. endpoint_events dd code name current_data baseline_data r = Inr evs
                       \<and> evs \<noteq> [] \<longrightarrow> dd base cur \<noteq> [])
            \<and> (dd base cur \<noteq> [] \<and> r = ''scope'' \<longrightarrow>
                 endpoint_events dd code name current_data baseline_data r
                   = detect_scope_changes code name cur base (dd base cur))
            \<and> (dd base cur \<noteq> [] \<and> r = ''regulatory'' \<longrightarrow>
                 endpoint_events dd code name current_data baseline_data r
                   = detect_regulatory_changes code name cur base (dd base cur))
            \<and> (dd base cur \<noteq> [] \<and> r = ''registration'' \<longrightarrow>
                 endpoint_events dd code name current_data baseline_data r
                   = detect_registration_changes code name cur base (dd base cur))
            \<and> (dd base cur \<noteq> [] \<and> r \<noteq> ''scope'' \<and> r \<noteq> ''regulatory'' \<and> r \<noteq> ''registration'' \<longrightarrow>
                 endpoint_events dd code name current_data baseline_data r
                   = Inr [TriggerEvent_init code name ''scope_changed'' ''Scope''
                            (Some (json_dumps base)) (Some (json_dumps cur))
                            (make_source_url code r)]))"
proof (intro conjI impI)
  assume "base = JNull \<and> cur = JNull"
  then show "endpoint_events dd code name current_data baseline_data r = Inr []"
    by (simp add: endpoint_events_def cur_def base_def)
next
  assume "base = JNull \<and> cur \<noteq> JNull"
  then show "\<exists>e. endpoint_events dd code name current_data baseline_data r = Inr [e]
                 \<and> old_value e = None \<and> new_value e = Some (json_dumps cur)"
    by (simp add: endpoint_events_def cur_def base_def detect_endpoint_changes_def
          handle_new_data_event TriggerEvent_init_def)
next
  assume "base \<noteq> JNull \<and> cur = JNull"
  then show "\<exists>e. endpoint_events dd code name current_data baseline_data r = Inr [e]
                 \<and> old_value e = Some (json_dumps base) \<and> new_value e = None"
    by (simp add: endpoint_events_def cur_def base_def detect_endpoint_changes_def
          handle_removed_data_event TriggerEvent_init_def)
next
  assume both: "base \<noteq> JNull \<and> cur \<noteq> JNull"
  then show eq: "endpoint_events dd code name current_data baseline_data r
              = compare_data dd code name r cur base"
    by (simp add: endpoint_events_def cur_def base_def detect_endpoint_changes_def)
  show "endpoint_events dd code name current_data baseline_data r = Inr []" if "dd base cur = []"
    using eq that by (simp add: compare_data_empty_diff)
  show "\<forall>evs. endpoint_events dd code name current_data baseline_data r = Inr evs
                       \<and> evs \<noteq> [] \<longrightarrow> dd base cur \<noteq> []"
    using eq compare_data_events_diff by metis
  show "endpoint_events dd code name current_data baseline_data r = detect_scope_changes code name cur base (dd base cur)"
    if "dd base cur \<noteq> [] \<and> r = ''scope''"
    using eq that by (simp add: compare_data_scope)
  show "endpoint_events dd code name current_data baseline_data r = detect_regulatory_changes code name cur base (dd base cur)"
    if "dd base cur \<noteq> [] \<and> r = ''regulatory''"
    using eq that by (simp add: compare_data_regulatory)
  show "endpoint_events dd code name current_data baseline_data r = detect_registration_changes code name cur base (dd base cur)"
    if "dd base cur \<noteq> [] \<and> r = ''registration''"
    using eq that by (simp add: compare_data_registration)
  show "endpoint_events dd code name current_data baseline_data r = Inr [TriggerEvent_init code name ''scope_changed'' ''Scope''
                            (Some (json_dumps base)) (Some (json_dumps cur))
                            (make_source_url code r)]"
    if "dd base cur \<noteq> [] \<and> r \<noteq> ''scope'' \<and> r \<noteq> ''regulatory'' \<and> r \<noteq> ''registration''"
    using eq that by (simp add: compare_data_generic)
qed

lemma dd_contacts_example:
  "deep_diff (JArray [JInt 2]) (JArray [JInt 1])
     = [(''iterable_item_added'', [(index_path ''root'' 0, JInt 1)]),
        (''iterable_item_removed'', [(index_path ''root'' 0, JInt 2)])]"
  by (simp add: deep_diff_def enumerate_eq_zip)

theorem C2_decision_table_witness:
  "endpoint_events deep_diff ''0001'' ''Acme'' (map_of []) (map_of []) ''scope'' = Inr []
   \<and> (\<exists>e. endpoint_events deep_diff ''0001'' ''Acme''
              (map_of [(''scope'', JArray [JInt 1, JInt 2])]) (map_of []) ''scope'' = Inr [e]
          \<and> old_value e = None \<and> new_value e = Some (json_dumps (JArray [JInt 1, JInt 2])))
   \<and> (\<exists>e. endpoint_events deep_diff ''0001'' ''Acme''
              (map_of [(''scope'', JNull)]) (map_of [(''scope'', JArray [JInt 1, JInt 2])]) ''scope''
            = Inr [e]
          \<and> old_value e = Some (json_dumps (JArray [JInt 1, JInt 2])) \<and> new_value e = None)
   \<and> deep_diff (JArray [JInt 1, JInt 2]) (JArray [JInt 2, JInt 1]) = []
   \<and> endpoint_events deep_diff ''0001'' ''Acme''
        (map_of [(''scope'', JArray [JInt 2, JInt 1])])
        (map_of [(''scope'', JArray [JInt 1, JInt 2])]) ''scope'' = Inr []
   \<and> deep_diff (JArray [JInt 2]) (JArray [JInt 1]) \<noteq> []
   \<and> endpoint_events deep_diff ''0001'' ''Acme''
        (map_of [(''contacts'', JArray [JInt 1])])
        (map_of [(''contacts'', JArray [JInt 2])]) ''contacts''
      = Inr [TriggerEvent_init ''0001'' ''Acme'' ''scope_changed'' ''Scope''
               (Some ''[2]'') (Some ''[1]'')
               ''https://training.gov.au/organisation/details/0001#contacts'']"
proof -
  have e: "deep_diff (JArray [JInt 1, JInt 2]) (JArray [JInt 2, JInt 1]) = []"
    by (simp add: deep_diff_def enumerate_eq_zip)
  have n: "deep_diff (JArray [JInt 2]) (JArray [JInt 1]) \<noteq> []"
    by (simp add: dd_contacts_example)
  have 1: "endpoint_events deep_diff ''0001'' ''Acme'' (map_of []) (map_of []) ''scope'' = Inr []"
    using C2_decision_table [where current_data = "map_of []" and baseline_data = "map_of []"
            and r = "''scope''" and dd = deep_diff and code = "''0001''" and name = "''Acme''"]
    by (simp add: py_get_def)
  have 2: "\<exists>e. endpoint_events deep_diff ''0001'' ''Acme''
              (map_of [(''scope'', JArray [JInt 1, JInt 2])]) (map_of []) ''scope'' = Inr [e]
          \<and> old_value e = None \<and> new_value e = Some (json_dumps (JArray [JInt 1, JInt 2]))"
    using C2_decision_table [where current_data = "map_of [(''scope'', JArray [JInt 1, JInt 2])]"
            and baseline_data = "map_of []"
            and r = "''scope''" and dd = deep_diff and code = "''0001''" and name = "''Acme''"]
    by (simp add: py_get_def)
  have 3: "\<exists>e. endpoint_events deep_diff ''0001'' ''Acme''
              (map_of [(''scope'', JNull)]) (map_of [(''scope'', JArray [JInt 1, JInt 2])]) ''scope''
            = Inr [e]
          \<and> old_value e = Some (json_dumps (JArray [JInt 1, JInt 2])) \<and> new_value e = None"
    using C2_decision_table [where current_data = "map_of [(''scope'', JNull)]"
            and baseline_data = "map_of [(''scope'', JArray [JInt 1, JInt 2])]"
            and r = "''scope''" and dd = deep_diff and code = "''0001''" and name = "''Acme''"]
    by (simp add: py_get_def)
  have 4: "endpoint_events deep_diff ''0001'' ''Acme''
        (map_of [(''scope'', JArray [JInt 2, JInt 1])])
        (map_of [(''scope'', JArray [JInt 1, JInt 2])]) ''scope'' = Inr []"
    using C2_decision_table [where current_data = "map_of [(''scope'', JArray [JInt 2, JInt 1])]"
            and baseline_data = "map_of [(''scope'', JArray [JInt 1, JInt 2])]"
            and r = "''scope''" and dd = deep_diff and code = "''0001''" and name = "''Acme''"]
    by (auto simp: py_get_def e)
  have d: "json_dumps (JArray [JInt 2]) = ''[2]''" "json_dumps (JArray [JInt 1]) = ''[1]''"
    by (simp_all add: dec_int_def dec_nat.simps hex_digit_def)
  have u: "make_source_url ''0001'' ''contacts''
             = ''https://training.gov.au/organisation/details/0001#contacts''"
    by (simp add: make_source_url_def dict_get_def)
  have 5: "endpoint_events deep_diff ''0001'' ''Acme''
        (map_of [(''contacts'', JArray [JInt 1])])
        (map_of [(''contacts'', JArray [JInt 2])]) ''contacts''
      = Inr [TriggerEvent_init ''0001'' ''Acme'' ''scope_changed'' ''Scope''
               (Some ''[2]'') (Some ''[1]'')
               ''https://training.gov.au/organisation/details/0001#contacts'']"
    using C2_decision_table [where current_data = "map_of [(''contacts'', JArray [JInt 1])]"
            and baseline_data = "map_of [(''contacts'', JArray [JInt 2])]"
            and r = "''contacts''" and dd = deep_diff and code = "''0001''" and name = "''Acme''"]
          n
    unfolding d [symmetric] u [symmetric]
    by (auto simp: py_get_def)
  from 1 2 3 e 4 n 5 show ?thesis by blast
qed

section \<open>Detection depends on the payloads only\<close>

lemma detect_loop_cong:
  assumes "\<forall>k\<in>set ks. py_get cur k = py_get cur' k \<and> py_get base k = py_get base' k"
  shows "detect_loop dd code name cur base ks acc = detect_loop dd code name cur' base' ks acc"
  using assms
proof (induction ks arbitrary: acc)
  case Nil
  then show ?case by simp
next
  case (Cons k ks)
  then have "endpoint_events dd code name cur base k = endpoint_events dd code name cur' base' k"
    by (simp add: endpoint_events_def)
  moreover have "detect_loop dd code name cur base ks acc' = detect_loop dd code name cur' base' ks acc'" for acc'
    using Cons by simp
  ultimately show ?case by (simp split: sum.splits)
qed

text \<open>
  C8. Detection is a function of the content of its inputs. The detector is modelled as a
  function because the source reads nothing else: no attribute of \<^verbatim>\<open>self\<close>, no global that
  is assigned anywhere, and the comparison \<open>dd\<close> is a function of the two payloads. Two
  invocations with the same entity id and name, and with mappings that hold equal payloads
  for the five resources (content-equal, whatever other keys they hold and whether an
  absent payload is a missing key or a stored \<^verbatim>\<open>None\<close>), return the same result: the same
  list of events, or the same exception.
\<close>

theorem C8_content_equal_inputs:
  assumes "\<forall>k\<in>set ENDPOINTS. py_get cur k = py_get cur' k \<and> py_get base k = py_get base' k"
  shows "detect_all_changes dd code name cur base = detect_all_changes dd code name cur' base'"
  unfolding detect_all_changes_def using assms by (rule detect_loop_cong)

theorem C8_content_equal_inputs_witness:
  "detect_all_changes deep_diff ''0001'' ''Acme''
      (map_of [(''regulatory'', JObject [(''decision'', JString ''Audit'')])])
      (map_of [])
   = detect_all_changes deep_diff ''0001'' ''Acme''
      (map_of [(''regulatory'', JObject [(''decision'', JString ''Audit'')]), (''news'', JInt 1)])
      (map_of [(''scope'', JNull), (''regulatory'', JNull)])"
  by (rule C8_content_equal_inputs) (simp add: ENDPOINTS_def py_get_def)

section \<open>The unbound name in differ.py\<close>

lemma load_global_EventCategory:
  "load_global ''EventCategory'' v = Inl (NameError ''EventCategory'')"
  by (simp add: load_global_def differ_module_names_def)

lemma for_each_body_raises:
  assumes "\<And>x. body x = Inl e"
  shows "for_each body xs events = (if xs = [] then Inr events else Inl e)"
  using assms by (cases xs) simp_all

lemma for_kind_body_raises:
  assumes "\<And>x. body x = Inl e"
  shows "for_kind d kind body events =
           (case map_of d kind of None \<Rightarrow> Inr events | Some [] \<Rightarrow> Inr events | Some (x # xs) \<Rightarrow> Inl e)"
  using assms by (simp add: for_kind_def for_each_body_raises split: option.splits list.splits)

lemma scope_added_event_raises: "scope_added_event code name item = Inl (NameError ''EventCategory'')"
  by (simp add: scope_added_event_def load_global_EventCategory)

lemma scope_removed_event_raises: "scope_removed_event code name item = Inl (NameError ''EventCategory'')"
  by (simp add: scope_removed_event_def load_global_EventCategory)

lemma scope_changed_event_raises: "scope_changed_event code name item = Inl (NameError ''EventCategory'')"
  by (simp add: scope_changed_event_def load_global_EventCategory)

lemma registration_changed_event_raises:
  "registration_changed_event code name item = Inl (NameError ''EventCategory'')"
  by (simp add: registration_changed_event_def load_global_EventCategory)

lemma detect_scope_changes_raises:
  assumes "map_of d kind = Some (x # xs)"
    and "kind \<in> {''iterable_item_added'', ''iterable_item_removed'', ''values_changed''}"
  shows "detect_scope_changes code name c b d = Inl (NameError ''EventCategory'')"
  using assms
  by (auto simp: detect_scope_changes_def
        for_kind_body_raises [of "scope_added_event code name", OF scope_added_event_raises]
        for_kind_body_raises [of "scope_removed_event code name", OF scope_removed_event_raises]
        for_kind_body_raises [of "scope_changed_event code name", OF scope_changed_event_raises]
        split: option.splits list.splits)

lemma detect_regulatory_changes_raises:
  "detect_regulatory_changes code name c b d = Inl (NameError ''EventCategory'')"
  by (simp add: detect_regulatory_changes_def load_global_EventCategory)

lemma detect_registration_changes_cases:
  "detect_registration_changes code name c b d =
     (case map_of d ''values_changed'' of
        None \<Rightarrow> Inr [] | Some [] \<Rightarrow> Inr [] | Some (x # xs) \<Rightarrow> Inl (NameError ''EventCategory''))"
  by (simp add: detect_registration_changes_def
        for_kind_body_raises [of "registration_changed_event code name", OF registration_changed_event_raises])

lemma endpoint_events_both_present:
  "py_get cur k \<noteq> JNull \<Longrightarrow> py_get base k \<noteq> JNull \<Longrightarrow>
   endpoint_events dd code name cur base k = compare_data dd code name k (py_get cur k) (py_get base k)"
  by (simp add: endpoint_events_def detect_endpoint_changes_def)

text \<open>
  C1 (the code departs from the claim). The detector does raise: when both scope payloads
  are present and the diff reports at least one added item, one removed item or one changed
  value, the first pass of a loop of \<^verbatim>\<open>_detect_scope_changes\<close> evaluates
  \<^verbatim>\<open>EventCategory.SCOPE.value\<close>, a name that differ.py never imports, and
  \<^verbatim>\<open>detect_all_changes\<close> ends with \<^verbatim>\<open>NameError\<close> instead of returning a list.
\<close>

theorem C1_scope_delta_raises:
  assumes "py_get cur ''scope'' \<noteq> JNull" and "py_get base ''scope'' \<noteq> JNull"
    and "map_of (dd (py_get base ''scope'') (py_get cur ''scope'')) kind = Some (x # xs)"
    and "kind \<in> {''iterable_item_added'', ''iterable_item_removed'', ''values_changed''}"
  shows "detect_all_changes dd code name cur base = Inl (NameError ''EventCategory'')"
proof -
  have ne: "dd (py_get base ''scope'') (py_get cur ''scope'') \<noteq> []"
    using assms(3) by auto
  have "compare_data dd code name ''scope'' (py_get cur ''scope'') (py_get base ''scope'')
          = Inl (NameError ''EventCategory'')"
    using ne detect_scope_changes_raises [OF assms(3) assms(4)]
    by (simp add: compare_data_def)
  then have "endpoint_events dd code name cur base ''scope'' = Inl (NameError ''EventCategory'')"
    using assms(1,2) by (simp add: endpoint_events_both_present)
  then show ?thesis
    by (simp add: detect_all_changes_def ENDPOINTS_def)
qed

lemma dd_scope_example:
  "deep_diff (JArray [JObject [(''code'', JString ''A'')]])
             (JArray [JObject [(''code'', JString ''A'')], JObject [(''code'', JString ''B'')]])
   = [(''iterable_item_added'', [(''root[1]'', JObject [(''code'', JString ''B'')])])]"
  by (simp add: deep_diff_def enumerate_eq_zip index_path_def dec_nat.simps hex_digit_def)

theorem C1_scope_delta_raises_witness:
  "detect_all_changes deep_diff ''0001'' ''Acme''
     (map_of [(''scope'', JArray [JObject [(''code'', JString ''A'')], JObject [(''code'', JString ''B'')]])])
     (map_of [(''scope'', JArray [JObject [(''code'', JString ''A'')]])])
   = Inl (NameError ''EventCategory'')"
  by (rule C1_scope_delta_raises [where kind = "''iterable_item_added''"])
     (simp_all add: py_get_def dd_scope_example)

text \<open>
  C4 (the code departs from the claim). For the regulatory resource with both payloads
  present, every non-empty diff makes \<^verbatim>\<open>_detect_regulatory_changes\<close> evaluate
  \<^verbatim>\<open>EventCategory.REGULATORY.value\<close>: the result is \<^verbatim>\<open>NameError\<close>, not one
  regulatory_new event.
\<close>

theorem C4_regulatory_diff_raises:
  assumes "baseline \<noteq> JNull" and "current \<noteq> JNull" and "dd baseline current \<noteq> []"
  shows "detect_endpoint_changes dd code name ''regulatory'' current baseline
           = Inl (NameError ''EventCategory'')"
  using assms
  by (simp add: detect_endpoint_changes_def compare_data_def detect_regulatory_changes_raises)

lemma dd_regulatory_example:
  "deep_diff (JObject [(''decision'', JString ''Audit'')])
             (JObject [(''decision'', JString ''Sanction'')])
   = [(''values_changed'',
        [(key_path ''root'' ''decision'',
          JObject [(''new_value'', JString ''Sanction''), (''old_value'', JString ''Audit'')])])]"
  by (simp add: deep_diff_def)

theorem C4_regulatory_diff_raises_witness:
  "deep_diff (JObject [(''decision'', JString ''Audit'')])
             (JObject [(''decision'', JString ''Sanction'')]) \<noteq> []
   \<and> detect_endpoint_changes deep_diff ''0001'' ''Acme'' ''regulatory''
        (JObject [(''decision'', JString ''Sanction'')])
        (JObject [(''decision'', JString ''Audit'')])
      = Inl (NameError ''EventCategory'')"
  using C4_regulatory_diff_raises [of "JObject [(''decision'', JString ''Audit'')]"
          "JObject [(''decision'', JString ''Sanction'')]" deep_diff "''0001''" "''Acme''"]
  by (simp add: dd_regulatory_example)

text \<open>
  C5 (the code departs from the claim). For the registration resource with both payloads
  present: a diff without the kind \<^verbatim>\<open>values_changed\<close> gives no event, as claimed; a diff
  with at least one changed value makes the loop of \<^verbatim>\<open>_detect_registration_changes\<close>
  evaluate \<^verbatim>\<open>EventCategory.REGISTRATION.value\<close> after it has chosen the event type, and
  the result is \<^verbatim>\<open>NameError\<close>, not one event for each changed value.
\<close>

theorem C5_registration_change_raises:
  assumes "baseline \<noteq> JNull" and "current \<noteq> JNull"
  shows "(map_of (dd baseline current) ''values_changed'' = None \<longrightarrow>
            detect_endpoint_changes dd code name ''registration'' current baseline = Inr [])
       \<and> (\<forall>x xs. map_of (dd baseline current) ''values_changed'' = Some (x # xs) \<longrightarrow>
            detect_endpoint_changes dd code name ''registration'' current baseline
              = Inl (NameError ''EventCategory''))"
  using assms
  by (auto simp: detect_endpoint_changes_def compare_data_def Let_def detect_registration_changes_cases)

lemma dd_registration_example:
  "deep_diff (JObject [(''status'', JString ''Active'')])
             (JObject [(''status'', JString ''Suspended'')])
   = [(''values_changed'',
        [(key_path ''root'' ''status'',
          JObject [(''new_value'', JString ''Suspended''), (''old_value'', JString ''Active'')])])]"
  by (simp add: deep_diff_def)

theorem C5_registration_change_raises_witness:
  "registration_event_type (key_path ''root'' ''status'') = REGISTRATION_STATUS_CHANGED
   \<and> detect_endpoint_changes deep_diff ''0001'' ''Acme'' ''registration''
        (JObject [(''status'', JString ''Suspended'')])
        (JObject [(''status'', JString ''Active'')])
      = Inl (NameError ''EventCategory'')"
proof -
  have t: "registration_event_type (key_path ''root'' ''status'') = REGISTRATION_STATUS_CHANGED"
    by (simp add: registration_event_type_def key_path_def lower_def lower_char_def)
  have "detect_endpoint_changes deep_diff ''0001'' ''Acme'' ''registration''
        (JObject [(''status'', JString ''Suspended'')])
        (JObject [(''status'', JString ''Active'')])
      = Inl (NameError ''EventCategory'')"
    using C5_registration_change_raises [of "JObject [(''status'', JString ''Active'')]"
          "JObject [(''status'', JString ''Suspended'')]" deep_diff "''0001''" "''Acme''"]
    by (simp add: dd_registration_example)
  with t show ?thesis by simp
qed

section \<open>Events are created in their initial state\<close>

lemma for_each_created:
  assumes "\<And>x ev. body x = Inr ev \<Longrightarrow> created_state ev"
    and "list_all created_state acc" and "for_each body xs acc = Inr evs"
  shows "list_all created_state evs"
  using assms(2,3)
proof (induction xs arbitrary: acc)
  case Nil
  then show ?case by simp
next
  case (Cons x xs)
  then obtain ev where b: "body x = Inr ev" and r: "for_each body xs (acc @ [ev]) = Inr evs"
    by (auto split: sum.splits)
  have "list_all created_state (acc @ [ev])"
    using Cons.prems(1) assms(1) [OF b] by simp
  then show ?case using Cons.IH r by blast
qed

lemma for_kind_created:
  assumes "\<And>x ev. body x = Inr ev \<Longrightarrow> created_state ev"
    and "list_all created_state acc" and "for_kind d kind body acc = Inr evs"
  shows "list_all created_state evs"
proof (cases "map_of d kind")
  case None
  then show ?thesis using assms(2,3) by (simp add: for_kind_def)
next
  case (Some items)
  then have "for_each body items acc = Inr evs" using assms(3) by (simp add: for_kind_def)
  then show ?thesis using for_each_created [of body acc items evs] assms(1,2) by blast
qed

lemma TriggerEvent_init_created:
  "created_state (TriggerEvent_init code name etype ecat old new url)"
  by (simp add: created_state_def TriggerEvent_init_def)

lemma scope_added_event_created: "scope_added_event code name item = Inr ev \<Longrightarrow> created_state ev"
  by (auto simp: scope_added_event_def TriggerEvent_init_created split: sum.splits)

lemma scope_removed_event_created: "scope_removed_event code name item = Inr ev \<Longrightarrow> created_state ev"
  by (auto simp: scope_removed_event_def TriggerEvent_init_created split: sum.splits)

lemma scope_changed_event_created: "scope_changed_event code name item = Inr ev \<Longrightarrow> created_state ev"
  by (auto simp: scope_changed_event_def TriggerEvent_init_created split: sum.splits)

lemma registration_changed_event_created:
  "registration_changed_event code name item = Inr ev \<Longrightarrow> created_state ev"
  by (auto simp: registration_changed_event_def Let_def TriggerEvent_init_created split: sum.splits)

lemma detect_scope_changes_created:
  assumes "detect_scope_changes code name c b d = Inr evs"
  shows "list_all created_state evs"
proof -
  from assms obtain e1 e2 where
    a: "for_kind d ''iterable_item_added'' (scope_added_event code name) [] = Inr e1" and
    r: "for_kind d ''iterable_item_removed'' (scope_removed_event code name) e1 = Inr e2" and
    c: "for_kind d ''values_changed'' (scope_changed_event code name) e2 = Inr evs"
    by (auto simp: detect_scope_changes_def split: sum.splits)
  have 1: "list_all created_state e1"
    using for_kind_created [OF scope_added_event_created _ a] by simp
  have 2: "list_all created_state e2"
    using for_kind_created [OF scope_removed_event_created 1 r] .
  show ?thesis
    using for_kind_created [OF scope_changed_event_created 2 c] .
qed

lemma compare_data_created:
  assumes "compare_data dd code name r c b = Inr evs"
  shows "list_all created_state evs"
proof -
  have reg: "list_all created_state evs"
    if "detect_registration_changes code name c b (dd b c) = Inr evs"
    using that for_kind_created [OF registration_changed_event_created, where acc = "[]"]
    by (simp add: detect_registration_changes_def)
  have regu: "list_all created_state evs"
    if "detect_regulatory_changes code name c b (dd b c) = Inr evs"
    using that
    by (auto simp: detect_regulatory_changes_def TriggerEvent_init_created split: sum.splits)
  show ?thesis
    using assms reg regu detect_scope_changes_created
    by (auto simp: compare_data_def Let_def TriggerEvent_init_created split: if_splits)
qed

lemma endpoint_events_created:
  assumes "endpoint_events dd code name cur base k = Inr evs"
  shows "list_all created_state evs"
  using assms compare_data_created
  by (auto simp: endpoint_events_def Let_def detect_endpoint_changes_def handle_new_data_def
        handle_removed_data_def TriggerEvent_init_created split: if_splits)

lemma detect_loop_created:
  assumes "detect_loop dd code name cur base ks acc = Inr evs" and "list_all created_state acc"
  shows "list_all created_state evs"
  using assms
proof (induction ks arbitrary: acc)
  case Nil
  then show ?case by simp
next
  case (Cons k ks)
  then obtain es where e: "endpoint_events dd code name cur base k = Inr es"
    and r: "detect_loop dd code name cur base ks (acc @ es) = Inr evs"
    by (auto split: sum.splits)
  have "list_all created_state (acc @ es)"
    using Cons.prems(2) endpoint_events_created [OF e] by simp
  then show ?case using Cons.IH r by blast
qed

text \<open>
  C10. Every event that \<^verbatim>\<open>detect_all_changes\<close> returns is in the initial state of its life
  cycle: delivery status pending, outreach status New, and the outreach score, the suggested
  opening, the business implication and the detection time all unset.
\<close>

theorem C10_events_created_state:
  assumes "detect_all_changes dd code name current_data baseline_data = Inr events"
    and "e \<in> set events"
  shows "delivery_status e = ''pending'' \<and> outreach_status e = ''New''
       \<and> outreach_score e = None \<and> suggested_opening e = None
       \<and> business_implication e = None \<and> detected_at e = None"
proof -
  have "list_all created_state events"
    using detect_loop_created [of dd code name current_data baseline_data ENDPOINTS "[]" events] assms(1)
    by (simp add: detect_all_changes_def)
  then have "created_state e" using assms(2) by (simp add: list_all_iff)
  then show ?thesis by (simp add: created_state_def)
qed

theorem C10_events_created_state_witness:
  "detect_all_changes deep_diff ''0001'' ''Acme''
      (map_of [(''regulatory'', JObject [(''decision'', JString ''Audit'')])]) (map_of [])
     = Inr [TriggerEvent_init ''0001'' ''Acme'' ''regulatory_new'' ''Regulatory'' None
              (Some (json_dumps (JObject [(''decision'', JString ''Audit'')])))
              ''https://training.gov.au/organisation/details/0001#regulatory'']
   \<and> delivery_status (TriggerEvent_init ''0001'' ''Acme'' ''regulatory_new'' ''Regulatory'' None
              (Some (json_dumps (JObject [(''decision'', JString ''Audit'')])))
              ''https://training.gov.au/organisation/details/0001#regulatory'') = ''pending''
   \<and> outreach_status (TriggerEvent_init ''0001'' ''Acme'' ''regulatory_new'' ''Regulatory'' None
              (Some (json_dumps (JObject [(''decision'', JString ''Audit'')])))
              ''https://training.gov.au/organisation/details/0001#regulatory'') = ''New''"
proof -
  have r: "detect_all_changes deep_diff ''0001'' ''Acme''
      (map_of [(''regulatory'', JObject [(''decision'', JString ''Audit'')])]) (map_of [])
     = Inr [TriggerEvent_init ''0001'' ''Acme'' ''regulatory_new'' ''Regulatory'' None
              (Some (json_dumps (JObject [(''decision'', JString ''Audit'')])))
              ''https://training.gov.au/organisation/details/0001#regulatory'']"
    by (simp add: detect_all_changes_def ENDPOINTS_def endpoint_events_def py_get_def
          detect_endpoint_changes_def handle_new_data_event make_source_url_def dict_get_def)
  show ?thesis
    using r C10_events_created_state [OF r, of "TriggerEvent_init ''0001'' ''Acme'' ''regulatory_new'' ''Regulatory'' None
              (Some (json_dumps (JObject [(''decision'', JString ''Audit'')])))
              ''https://training.gov.au/organisation/details/0001#regulatory''"]
    by simp
qed

section \<open>Reordering produces no event\<close>

lemma list_all2_left_ex:
  "list_all2 P xs zs \<Longrightarrow> x \<in> set xs \<Longrightarrow> \<exists>z\<in>set zs. P x z"
  by (induction rule: list_all2_induct) auto

lemma list_all2_right_ex:
  "list_all2 P xs zs \<Longrightarrow> z \<in> set zs \<Longrightarrow> \<exists>x\<in>set xs. P x z"
  by (induction rule: list_all2_induct) auto

lemma snd_enumerate_in_set: "iy \<in> set (enumerate n ys) \<Longrightarrow> snd iy \<in> set ys"
  by (cases iy) (auto simp: in_set_enumerate_eq)

lemma deltas_array_empty:
  assumes "\<forall>x\<in>set xs. \<exists>y\<in>set ys. oi_equal x y"
    and "\<forall>y\<in>set ys. \<exists>x\<in>set xs. oi_equal x y"
  shows "deltas p (JArray xs) (JArray ys) = []"
  using assms by (auto simp: filter_empty_conv list_ex_iff dest: snd_enumerate_in_set)

lemma oi_equal_array:
  assumes "\<forall>x\<in>set xs. \<exists>y\<in>set ys. oi_equal x y"
    and "\<forall>y\<in>set ys. \<exists>x\<in>set xs. oi_equal x y"
  shows "oi_equal (JArray xs) (JArray ys)"
  using assms by (simp add: list_all_iff list_ex_iff)

lemma oi_equal_object:
  assumes "\<forall>kv\<in>set kvs. \<exists>v'. map_of kvs' (fst kv) = Some v' \<and> oi_equal (snd kv) v'"
    and "\<forall>kv'\<in>set kvs'. map_of kvs (fst kv') \<noteq> None"
  shows "oi_equal (JObject kvs) (JObject kvs')"
  using assms by (auto simp: list_all_iff split: option.splits)

lemma deltas_object_empty:
  assumes "\<forall>kv\<in>set kvs. \<exists>v'. map_of kvs' (fst kv) = Some v' \<and> (\<forall>p. deltas p (snd kv) v' = [])"
    and "\<forall>kv'\<in>set kvs'. map_of kvs (fst kv') \<noteq> None"
  shows "deltas p (JObject kvs) (JObject kvs') = []"
proof -
  have 1: "(case map_of kvs' (fst kv) of
              None \<Rightarrow> [ScalarChanged (key_path p (fst kv)) (snd kv) JNull]
            | Some v' \<Rightarrow> deltas (key_path p (fst kv)) (snd kv) v') = []" if "kv \<in> set kvs" for kv
    using assms(1) that by (auto split: option.splits)
  have 2: "(case map_of kvs (fst kv') of
              None \<Rightarrow> [ScalarChanged (key_path p (fst kv')) JNull (snd kv')]
            | Some v \<Rightarrow> []) = []" if "kv' \<in> set kvs'" for kv'
    using assms(2) that by (auto split: option.splits)
  show ?thesis using 1 2 by simp
qed

lemma json_perm_sound:
  "json_perm a b \<Longrightarrow> oi_equal a b \<and> oi_equal b a \<and> (\<forall>p. deltas p a b = [])"
proof (induction rule: json_perm.induct)
  case (perm_array xs zs ys)
  let ?R = "\<lambda>x z. json_perm x z \<and> oi_equal x z \<and> oi_equal z x \<and> (\<forall>p. deltas p x z = [])"
  have rel: "list_all2 ?R xs zs" using perm_array.IH by simp
  have sets: "set zs = set ys" using perm_array.hyps by (rule mset_eq_setD)
  have l: "\<exists>y\<in>set ys. oi_equal x y \<and> oi_equal y x" if "x \<in> set xs" for x
    using list_all2_left_ex [OF rel that] sets by blast
  have r: "\<exists>x\<in>set xs. oi_equal x y \<and> oi_equal y x" if "y \<in> set ys" for y
    using list_all2_right_ex [OF rel, of y] that sets by blast
  have "oi_equal (JArray xs) (JArray ys)"
    by (rule oi_equal_array) (use l r in blast)+
  moreover have "oi_equal (JArray ys) (JArray xs)"
    by (rule oi_equal_array) (use l r in blast)+
  moreover have "deltas p (JArray xs) (JArray ys) = []" for p
    by (rule deltas_array_empty) (use l r in blast)+
  ultimately show ?case by blast
next
  case (perm_object kvs kzs kvs')
  let ?R = "\<lambda>kv kz. fst kv = fst kz \<and> json_perm (snd kv) (snd kz) \<and> oi_equal (snd kv) (snd kz)
              \<and> oi_equal (snd kz) (snd kv) \<and> (\<forall>p. deltas p (snd kv) (snd kz) = [])"
  have rel: "list_all2 ?R kvs kzs"
    using perm_object.IH by (simp add: list_all2_conv_all_nth)
  have ms: "mset kzs = mset kvs'" using perm_object.hyps by simp
  have sets: "set kzs = set kvs'" using ms by (rule mset_eq_setD)
  have keys: "map fst kvs = map fst kzs"
    using rel by (induction rule: list_all2_induct) auto
  have d1: "distinct (map fst kvs)" using perm_object.hyps by simp
  have d2: "distinct (map fst kvs')"
  proof -
    have "mset (map fst kvs') = mset (map fst kzs)" using ms by simp
    then have "distinct (map fst kvs') = distinct (map fst kzs)" by (rule mset_eq_imp_distinct_iff)
    then show ?thesis using d1 keys by simp
  qed
  have l: "\<exists>v'. map_of kvs' (fst kv) = Some v' \<and> oi_equal (snd kv) v' \<and> oi_equal v' (snd kv)
              \<and> (\<forall>p. deltas p (snd kv) v' = [])" if "kv \<in> set kvs" for kv
  proof -
    from list_all2_left_ex [OF rel that] obtain kz where kz: "kz \<in> set kzs" "?R kv kz" by blast
    then have "(fst kv, snd kz) \<in> set kvs'" using sets by (metis prod.collapse)
    then have "map_of kvs' (fst kv) = Some (snd kz)" using d2 by simp
    then show ?thesis using kz(2) by blast
  qed
  have r: "\<exists>v. map_of kvs (fst kv') = Some v \<and> oi_equal (snd kv') v \<and> oi_equal v (snd kv')"
    if "kv' \<in> set kvs'" for kv'
  proof -
    have "kv' \<in> set kzs" using that sets by simp
    from list_all2_right_ex [OF rel this] obtain kv where kv: "kv \<in> set kvs" "?R kv kv'" by blast
    then have "(fst kv', snd kv) \<in> set kvs" by (metis prod.collapse)
    then have "map_of kvs (fst kv') = Some (snd kv)" using d1 by simp
    then show ?thesis using kv(2) by blast
  qed
  have "oi_equal (JObject kvs) (JObject kvs')"
    by (rule oi_equal_object) (use l r in fastforce)+
  moreover have "oi_equal (JObject kvs') (JObject kvs)"
    by (rule oi_equal_object) (use l r in fastforce)+
  moreover have "deltas p (JObject kvs) (JObject kvs') = []" for p
    by (rule deltas_object_empty) (use l r in fastforce)+
  ultimately show ?case by blast
qed simp_all

lemma deep_diff_empty: "deltas ''root'' a b = [] \<Longrightarrow> deep_diff a b = []"
  by (simp add: deep_diff_def)

lemma json_perm_JNull: "json_perm a b \<Longrightarrow> (a = JNull) = (b = JNull)"
  by (induction rule: json_perm.induct) simp_all

text \<open>
  C6. For every resource \<open>r\<close> and every pair of payloads that are structurally equal up to
  the order of list elements (and of dict keys), the structural diff is empty and detection
  returns no event for that resource; in particular a permutation of the elements of a list
  produces no event. The order-insensitivity is that of the structural diff as the
  specification describes it; on the side of the detector, any comparison that reports the
  empty diff for the pair gives no event.
\<close>

theorem C6_reordering_yields_no_event:
  assumes "json_perm baseline current"
  shows "deep_diff baseline current = []
       \<and> detect_endpoint_changes deep_diff code name r current baseline = Inr []
       \<and> (\<forall>dd. dd baseline current = [] \<longrightarrow>
             detect_endpoint_changes dd code name r current baseline = Inr [])"
proof -
  have e: "deep_diff baseline current = []"
    using json_perm_sound [OF assms] by (simp add: deep_diff_empty)
  have g: "detect_endpoint_changes dd code name r current baseline = Inr []"
    if "dd baseline current = []" for dd
    using json_perm_JNull [OF assms] that
    by (simp add: detect_endpoint_changes_def compare_data_def)
  show ?thesis using e g by simp
qed

theorem C6_reordering_yields_no_event_witness:
  "json_perm (JArray [JObject [(''code'', JString ''A'')], JObject [(''code'', JString ''B'')]])
             (JArray [JObject [(''code'', JString ''B'')], JObject [(''code'', JString ''A'')]])
   \<and> detect_endpoint_changes deep_diff ''0001'' ''Acme'' ''scope''
        (JArray [JObject [(''code'', JString ''B'')], JObject [(''code'', JString ''A'')]])
        (JArray [JObject [(''code'', JString ''A'')], JObject [(''code'', JString ''B'')]])
      = Inr []"
proof -
  have o: "json_perm (JObject [(''code'', JString s)]) (JObject [(''code'', JString s)])" for s
    by (rule perm_object [where kzs = "[(''code'', JString s)]"]) (simp_all add: perm_string)
  have p: "json_perm (JArray [JObject [(''code'', JString ''A'')], JObject [(''code'', JString ''B'')]])
             (JArray [JObject [(''code'', JString ''B'')], JObject [(''code'', JString ''A'')]])"
    by (rule perm_array [where zs = "[JObject [(''code'', JString ''A'')], JObject [(''code'', JString ''B'')]]"])
       (simp_all add: o)
  show ?thesis
    using p C6_reordering_yields_no_event [OF p, of "''0001''" "''Acme''" "''scope''"] by simp
qed

section \<open>The key order of serialised values\<close>

lemma map_of_defined_iff: "(map_of kvs k \<noteq> None) = (k \<in> set (map fst kvs))"
  by (simp add: map_of_eq_None_iff)

lemma map_equal_sorted_eq:
  "keys_sorted a \<Longrightarrow> keys_sorted b \<Longrightarrow> map_equal a b \<Longrightarrow> a = b"
proof (induction a arbitrary: b)
  case (JArray xs)
  show ?case
  proof (cases b)
    case (JArray ys)
    have rel: "list_all2 map_equal xs ys" using JArray.prems(3) \<open>b = JArray ys\<close> by simp
    have "list_all2 (=) xs ys"
    proof (rule list.rel_mono_strong [OF rel])
      fix x y assume "x \<in> set xs" "y \<in> set ys" "map_equal x y"
      moreover have "keys_sorted x" using JArray.prems(1) \<open>x \<in> set xs\<close> by (simp add: list_all_iff)
      moreover have "keys_sorted y"
        using JArray.prems(2) \<open>y \<in> set ys\<close> \<open>b = JArray ys\<close> by (simp add: list_all_iff)
      ultimately show "x = y" using JArray.IH by blast
    qed
    then show ?thesis using \<open>b = JArray ys\<close> by (simp add: list.rel_eq)
  qed (use JArray.prems in simp_all)
next
  case (JObject kvs)
  show ?case
  proof (cases b)
    case b: (JObject kvs')
    have s1: "sorted_wrt (<) (map fst kvs)" and v1: "\<forall>kv\<in>set kvs. keys_sorted (snd kv)"
      using JObject.prems(1) by (simp_all add: list_all_iff)
    have s2: "sorted_wrt (<) (map fst kvs')" and v2: "\<forall>kv\<in>set kvs'. keys_sorted (snd kv)"
      using JObject.prems(2) b by (simp_all add: list_all_iff)
    have m1: "\<forall>kv\<in>set kvs. \<exists>v'. map_of kvs' (fst kv) = Some v' \<and> map_equal (snd kv) v'"
      using JObject.prems(3) b by (auto simp: list_all_iff split: option.splits)
    have m2: "\<forall>kv'\<in>set kvs'. map_of kvs (fst kv') \<noteq> None"
      using JObject.prems(3) b by (simp add: list_all_iff)
    have d1: "distinct (map fst kvs)" and d2: "distinct (map fst kvs')"
      using s1 s2 by (simp_all add: strict_sorted_iff)
    have "set (map fst kvs) = set (map fst kvs')"
    proof
      show "set (map fst kvs) \<subseteq> set (map fst kvs')"
      proof
        fix k assume "k \<in> set (map fst kvs)"
        then obtain kv where "kv \<in> set kvs" "k = fst kv" by auto
        then have "map_of kvs' k \<noteq> None" using m1 by auto
        then show "k \<in> set (map fst kvs')" by (simp only: map_of_defined_iff)
      qed
      show "set (map fst kvs') \<subseteq> set (map fst kvs)"
      proof
        fix k assume "k \<in> set (map fst kvs')"
        then obtain kv' where "kv' \<in> set kvs'" "k = fst kv'" by auto
        then have "map_of kvs k \<noteq> None" using m2 by auto
        then show "k \<in> set (map fst kvs)" by (simp only: map_of_defined_iff)
      qed
    qed
    then have keys: "map fst kvs = map fst kvs'"
      using s1 s2 by (intro sorted_distinct_set_unique) (simp_all add: strict_sorted_iff)
    then have len: "length kvs = length kvs'" by (metis length_map)
    have "kvs ! i = kvs' ! i" if i: "i < length kvs" for i
    proof -
      have in1: "kvs ! i \<in> set kvs" using i by simp
      have in2: "kvs' ! i \<in> set kvs'" using i len by simp
      have k: "fst (kvs ! i) = fst (kvs' ! i)"
        using keys i len by (metis nth_map)
      from m1 in1 obtain v' where v': "map_of kvs' (fst (kvs ! i)) = Some v'"
        "map_equal (snd (kvs ! i)) v'" by blast
      have "(fst (kvs ! i), snd (kvs' ! i)) \<in> set kvs'" using in2 k by simp
      then have "map_of kvs' (fst (kvs ! i)) = Some (snd (kvs' ! i))" using d2 by simp
      then have "map_equal (snd (kvs ! i)) (snd (kvs' ! i))" using v' by simp
      moreover have "snd (kvs ! i) \<in> Basic_BNFs.snds (kvs ! i)"
        by (cases "kvs ! i") simp
      ultimately have "snd (kvs ! i) = snd (kvs' ! i)"
        using JObject.IH [OF in1] v1 v2 in1 in2 by blast
      then show ?thesis using k by (simp add: prod_eq_iff)
    qed
    then have "kvs = kvs'" using len by (simp add: nth_equalityI)
    then show ?thesis using b by simp
  qed (use JObject.prems in simp_all)
qed simp_all

text \<open>
  C9 (as amended). The old and new value of an appeared or a disappeared event are
  \<^verbatim>\<open>json.dumps\<close> of the payload, the members of each dict in the order the dict holds them:
  the detector passes no \<^verbatim>\<open>sort_keys\<close>. Two payloads that are equal as maps serialise to the
  same string in the event when both hold the keys of every dict in sorted order, as a
  baseline read back from the store does.
\<close>

theorem C9_sorted_keys_serialisation:
  assumes "keys_sorted X" and "keys_sorted Y" and "map_equal X Y" and "X \<noteq> JNull"
  shows "\<exists>a a' d d'.
           detect_endpoint_changes dd code name r X JNull = Inr [a]
         \<and> detect_endpoint_changes dd code name r Y JNull = Inr [a']
         \<and> detect_endpoint_changes dd code name r JNull X = Inr [d]
         \<and> detect_endpoint_changes dd code name r JNull Y = Inr [d']
         \<and> new_value a = Some (json_dumps X) \<and> new_value a' = new_value a
         \<and> old_value d = Some (json_dumps X) \<and> old_value d' = old_value d"
proof -
  have "X = Y" using assms(1-3) by (rule map_equal_sorted_eq)
  then show ?thesis
    using assms(4)
    by (simp add: detect_endpoint_changes_def handle_new_data_def handle_removed_data_def
          TriggerEvent_init_def)
qed

theorem C9_sorted_keys_serialisation_witness:
  "keys_sorted (JObject [(''a'', JInt 1), (''b'', JArray [JObject [(''c'', JNull), (''d'', JInt 2)]])])
   \<and> (\<exists>a d.
         detect_endpoint_changes deep_diff ''0001'' ''Acme'' ''contacts''
           (JObject [(''a'', JInt 1), (''b'', JArray [JObject [(''c'', JNull), (''d'', JInt 2)]])]) JNull
           = Inr [a]
       \<and> detect_endpoint_changes deep_diff ''0001'' ''Acme'' ''contacts'' JNull
           (JObject [(''a'', JInt 1), (''b'', JArray [JObject [(''c'', JNull), (''d'', JInt 2)]])])
           = Inr [d]
       \<and> new_value a = Some (json_dumps
           (JObject [(''a'', JInt 1), (''b'', JArray [JObject [(''c'', JNull), (''d'', JInt 2)]])]))
       \<and> old_value d = new_value a)"
proof -
  let ?X = "JObject [(''a'', JInt 1), (''b'', JArray [JObject [(''c'', JNull), (''d'', JInt 2)]])]"
  have k: "keys_sorted ?X" by simp
  have m: "map_equal ?X ?X" by simp
  from C9_sorted_keys_serialisation [OF k k m, of deep_diff "''0001''" "''Acme''" "''contacts''"]
  obtain a a' d d' where
    "detect_endpoint_changes deep_diff ''0001'' ''Acme'' ''contacts'' ?X JNull = Inr [a]"
    "detect_endpoint_changes deep_diff ''0001'' ''Acme'' ''contacts'' JNull ?X = Inr [d]"
    "new_value a = Some (json_dumps ?X)" "old_value d = Some (json_dumps ?X)"
    by auto
  then show ?thesis using k by auto
qed

text \<open>
  C9 as stated fails: two payloads with the same key-value pairs, inserted in different
  orders, appear with different strings as the new value of the event.
\<close>

theorem C9_key_order_counterexample:
  "map_equal (JObject [(''a'', JInt 1), (''b'', JInt 2)]) (JObject [(''b'', JInt 2), (''a'', JInt 1)])
   \<and> map_of [(''a'', JInt 1), (''b'', JInt 2)] = map_of [(''b'', JInt 2), (''a'', JInt 1)]
   \<and> detect_all_changes deep_diff ''0001'' ''Acme''
        (map_of [(''contacts'', JObject [(''a'', JInt 1), (''b'', JInt 2)])]) (map_of [])
      = Inr [TriggerEvent_init ''0001'' ''Acme'' ''scope_added'' ''Scope'' None
               (Some (json_dumps (JObject [(''a'', JInt 1), (''b'', JInt 2)])))
               ''https://training.gov.au/organisation/details/0001#contacts'']
   \<and> detect_all_changes deep_diff ''0001'' ''Acme''
        (map_of [(''contacts'', JObject [(''b'', JInt 2), (''a'', JInt 1)])]) (map_of [])
      = Inr [TriggerEvent_init ''0001'' ''Acme'' ''scope_added'' ''Scope'' None
               (Some (json_dumps (JObject [(''b'', JInt 2), (''a'', JInt 1)])))
               ''https://training.gov.au/organisation/details/0001#contacts'']
   \<and> json_dumps (JObject [(''a'', JInt 1), (''b'', JInt 2)])
       \<noteq> json_dumps (JObject [(''b'', JInt 2), (''a'', JInt 1)])"
proof -
  have eq: "map_of [(''a'', JInt 1), (''b'', JInt 2)] = map_of [(''b'', JInt 2), (''a'', JInt 1)]"
    by (rule ext) simp
  have ev: "detect_all_changes deep_diff ''0001'' ''Acme'' (map_of [(''contacts'', X)]) (map_of [])
      = Inr [TriggerEvent_init ''0001'' ''Acme'' ''scope_added'' ''Scope'' None
               (Some (json_dumps X))
               ''https://training.gov.au/organisation/details/0001#contacts'']"
    if "X \<noteq> JNull" for X
    using that
    by (simp add: detect_all_changes_def ENDPOINTS_def endpoint_events_def py_get_def
          detect_endpoint_changes_def handle_new_data_def get_event_category_def
          EVENT_CATEGORY_MAP_def make_source_url_def dict_get_def)
  have ne: "json_dumps (JObject [(''a'', JInt 1), (''b'', JInt 2)])
       \<noteq> json_dumps (JObject [(''b'', JInt 2), (''a'', JInt 1)])"
    by (simp add: encode_basestring_ascii_def escape_char_def)
  show ?thesis using eq ev ne by simp
qed

end
